theory Spec2Isabelle
  imports Main "HOL-Library.Word"
begin

unbundle bit_operations_syntax

section \<open>Go values used by the authentication subsystem\<close>

subsection \<open>Errors\<close>

text \<open>
  Go compares the values this program uses as errors by identity: \<open>errors.Is\<close> finds a
  target in an error only if the very value of the target is the error or is wrapped in
  it. Three kinds of value are told apart.
  \<^item> \<open>Sentinel v m\<close> is the value of the package-level variable \<open>v\<close>, made once
    when the program starts, with text \<open>m\<close>. It is identified by its variable.
  \<^item> \<open>New m\<close> is a value made by a call of \<open>errors.New\<close>, or of \<open>fmt.Errorf\<close>
    without a \<open>%w\<close> verb, while the program runs. It is a fresh value: it is never a
    sentinel, whatever its text.
  \<^item> \<open>Errorf m es\<close> is a value made by \<open>fmt.Errorf\<close> with \<open>%w\<close> verbs; it
    wraps the errors \<open>es\<close>.
  A nil error is \<open>None\<close> of \<open>err option\<close>.
\<close>

datatype err = Sentinel string string | New string | Errorf string "err list"

text \<open>
  \<open>errors.Is\<close>: the error itself, or any error it wraps, is the target. The program
  and its libraries call it with a sentinel as the target, and a sentinel equals nothing
  but itself. (Of two values made at run time the model knows only the texts, so it is not
  to be used with such a value as the target.)
\<close>

fun errors_Is :: "err \<Rightarrow> err \<Rightarrow> bool" where
  "errors_Is (Sentinel v m) target = (Sentinel v m = target)"
| "errors_Is (New m) target = (New m = target)"
| "errors_Is (Errorf m es) target =
     (Errorf m es = target \<or> list_ex (\<lambda>e. errors_Is e target) es)"

subsection \<open>Strings\<close>

text \<open>
  A Go string is a sequence of bytes, as \<open>string\<close> (a list of 8-bit characters) is.
  \<open>strings.Split(s, sep)\<close> with a one-byte separator cuts \<open>s\<close> at every occurrence
  of the separator and always returns at least one part.
\<close>

fun strings_Split :: "string \<Rightarrow> char \<Rightarrow> string list" where
  "strings_Split [] sep = [[]]"
| "strings_Split (c # cs) sep =
     (if c = sep then [] # strings_Split cs sep
      else (case strings_Split cs sep of
              [] \<Rightarrow> [[c]]
            | p # ps \<Rightarrow> (c # p) # ps))"

text \<open>
  \<open>strings.ToLower\<close> on an ASCII string adds \<open>'a' - 'A'\<close> to every byte between
  \<open>'A'\<close> and \<open>'Z'\<close>. On a string with a byte of \<open>0x80\<close> or more Go lower-cases
  whole runes instead; no rune outside ASCII has one of the letters of \<open>bearer\<close> as its
  lower case, so the comparison of the result with \<open>"bearer"\<close>, the only use the program
  makes of it, comes out false there as it does in this byte-wise model.
\<close>

definition toLower_byte :: "char \<Rightarrow> char" where
  "toLower_byte c =
     (let n = (of_char c :: nat) in if 65 \<le> n \<and> n \<le> 90 then char_of (n + 32) else c)"

definition strings_ToLower :: "string \<Rightarrow> string" where
  "strings_ToLower s = map toLower_byte s"

subsection \<open>UUIDs\<close>

text \<open>
  \<open>uuid.UUID\<close> is an array of 16 bytes, here a 128-bit word whose most significant
  byte is element 0. \<open>uuid.Nil\<close> is the zero value. \<open>String\<close> prints the bytes in
  hexadecimal, grouped 4-2-2-2-6.
\<close>

type_synonym uuid = "128 word"

definition uuid_Nil :: uuid where
  "uuid_Nil = 0"

definition hex_digit :: "nat \<Rightarrow> char" where
  "hex_digit n = ''0123456789abcdef'' ! (n mod 16)"

definition uuid_byte :: "uuid \<Rightarrow> nat \<Rightarrow> nat" where
  "uuid_byte u i = unat (drop_bit (8 * (15 - i)) u AND 255)"

definition encodeHex :: "uuid \<Rightarrow> nat list \<Rightarrow> string" where
  "encodeHex u is = concat (map (\<lambda>i. [hex_digit (uuid_byte u i div 16), hex_digit (uuid_byte u i)]) is)"

definition uuid_String :: "uuid \<Rightarrow> string" where
  "uuid_String u =
     encodeHex u [0, 1, 2, 3] @ ''-'' @ encodeHex u [4, 5] @ ''-'' @ encodeHex u [6, 7] @ ''-''
       @ encodeHex u [8, 9] @ ''-'' @ encodeHex u [10, 11, 12, 13, 14, 15]"

section \<open>The request gate: \<open>middleware.JWTAuth\<close>\<close>

text \<open>
  The part of \<open>echo.Context\<close> the middleware touches: the request's
  \<open>Authorization\<close> header (\<open>Header.Get\<close> gives the empty string when the header is
  absent) and the values stored with \<open>c.Set\<close>.
\<close>

record echo_Context =
  Authorization :: string
  store :: "string \<rightharpoonup> uuid"

definition UserIDContextKey :: string where
  "UserIDContextKey = ''userID''"

definition c_Set :: "'a echo_Context_scheme \<Rightarrow> string \<Rightarrow> uuid \<Rightarrow> 'a echo_Context_scheme" where
  "c_Set c k v = c\<lparr>store := (store c)(k \<mapsto> v)\<rparr>"

text \<open>\<open>echo.NewHTTPError(code, message)\<close>.\<close>

datatype HTTPError = NewHTTPError nat string

definition StatusUnauthorized :: nat where
  "StatusUnauthorized = 401"

text \<open>
  What the middleware returns: an error of its own making (\<open>Rejected\<close>), or whatever the
  next handler returns when called on the context (\<open>Next\<close>). The handler runs exactly
  when the result is a \<open>Next\<close>. \<open>authSvc\<close> is the \<open>ValidateToken\<close> method of the
  \<open>auth.Service\<close> interface the middleware is given; the logger's output is left out.
\<close>

datatype 'r gate_result = Rejected HTTPError | Next 'r

definition JWTAuth ::
  "(string \<Rightarrow> uuid \<times> err option) \<Rightarrow> (echo_Context \<Rightarrow> 'r) \<Rightarrow> echo_Context \<Rightarrow> 'r gate_result" where
  "JWTAuth authSvc next c =
     (let authHeader = Authorization c in
      if authHeader = [] then
        Rejected (NewHTTPError StatusUnauthorized ''Missing or malformed authorization header'')
      else
        let parts = strings_Split authHeader (CHR '' '') in
        if length parts \<noteq> 2 \<or> strings_ToLower (parts ! 0) \<noteq> ''bearer'' then
          Rejected (NewHTTPError StatusUnauthorized ''Missing or malformed authorization header'')
        else
          let tokenString = parts ! 1 in
          if tokenString = [] then
            Rejected (NewHTTPError StatusUnauthorized ''Missing or malformed authorization header'')
          else
            (case authSvc tokenString of
               (userID, Some e) \<Rightarrow>
                 Rejected (NewHTTPError StatusUnauthorized ''Invalid or expired token'')
             | (userID, None) \<Rightarrow> Next (next (c_Set c UserIDContextKey userID))))"

text \<open>
  The last step of \<open>JWTAuth\<close> on its own: the token is handed to the service, and the
  handler runs on the context that holds the user's id if the service accepts it.
\<close>

definition validate_then_next ::
  "(string \<Rightarrow> uuid \<times> err option) \<Rightarrow> (echo_Context \<Rightarrow> 'r) \<Rightarrow> echo_Context \<Rightarrow> string \<Rightarrow> 'r gate_result" where
  "validate_then_next authSvc next c tokenString =
     (case authSvc tokenString of
        (userID, Some e) \<Rightarrow> Rejected (NewHTTPError StatusUnauthorized ''Invalid or expired token'')
      | (userID, None) \<Rightarrow> Next (next (c_Set c UserIDContextKey userID)))"

text \<open>
  Two stand-ins for the interface values the middleware is given in a test: a service
  whose \<open>ValidateToken\<close> accepts every token, and a handler that answers.
\<close>

definition stub_authSvc :: "string \<Rightarrow> uuid \<times> err option" where
  "stub_authSvc tokenString = (1, None)"

definition stub_handler :: "echo_Context \<Rightarrow> string" where
  "stub_handler c = ''handler ran''"

text \<open>
  The spellings of a lower-case word that differ from it only in the case of its letters:
  each byte is the word's letter or that letter's upper case (\<open>'a' - 'A' = 32\<close>).
\<close>

definition upper_byte :: "char \<Rightarrow> char" where
  "upper_byte d = char_of (of_char d - (32::nat))"

definition any_capitalization :: "string \<Rightarrow> string \<Rightarrow> bool" where
  "any_capitalization w s = list_all2 (\<lambda>d c. c = d \<or> c = upper_byte d) w s"

section \<open>Time\<close>

text \<open>
  A \<open>time.Time\<close> is counted in nanoseconds since the Unix epoch and a
  \<open>time.Duration\<close> in nanoseconds, both as unbounded integers (the program adds
  durations of hours and days to the current time, far from the ends of Go's ranges).
\<close>

type_synonym time = int

definition Second :: int where
  "Second = 1000000000"

definition Hour :: int where
  "Hour = 3600 * Second"

section \<open>The token library as the program uses it (\<open>github.com/golang-jwt/jwt/v5\<close>)\<close>

text \<open>
  The library is a dependency of the repository. This section models the functions the
  program calls, in the library's default configuration, with two abstractions. The
  compact serialisation (three base64url segments of JSON) is a value that carries what
  the segments decode to, and any string that does not decode is \<open>Not_a_token\<close>. The
  message authentication code is symbolic: \<open>HMAC a key h c\<close> stands for the code that
  method \<open>a\<close> computes under \<open>key\<close> over the header and the claims, and different
  inputs have different codes.
\<close>

text \<open>
  \<open>NewNumericDate\<close> truncates a time to \<open>TimePrecision\<close>, which is one second
  unless a program changes it; this one does not.
\<close>

definition TimePrecision :: int where
  "TimePrecision = Second"

definition NewNumericDate :: "time \<Rightarrow> time" where
  "NewNumericDate t = t - t mod TimePrecision"

text \<open>
  \<open>CustomClaims\<close> of \<open>jwt.go\<close>: the user's id and the embedded registered
  claims. Of the registered claims only the four the program sets are kept; the others
  stay at their zero values and nothing reads them.
\<close>

record CustomClaims =
  UserID :: uuid
  Subject :: string
  ExpiresAt :: "time option"
  IssuedAt :: "time option"
  NotBefore :: "time option"

record Header =
  hdr_alg :: "string option"
  hdr_typ :: "string option"

datatype signature = HMAC string string Header CustomClaims | Bytes string

datatype token_string = Not_a_token string | Compact Header CustomClaims signature

datatype SigningMethod =
    SigningMethodHMAC string
  | SigningMethodRSA string
  | SigningMethodRSAPSS string
  | SigningMethodECDSA string
  | SigningMethodEd25519
  | SigningMethodNone

record Token =
  Method :: SigningMethod
  Header :: Header
  Claims :: CustomClaims
  Signature :: signature
  Valid :: bool

definition ErrTokenMalformed :: err where
  "ErrTokenMalformed = Sentinel ''jwt.ErrTokenMalformed'' ''token is malformed''"

definition ErrTokenUnverifiable :: err where
  "ErrTokenUnverifiable = Sentinel ''jwt.ErrTokenUnverifiable'' ''token is unverifiable''"

definition ErrTokenSignatureInvalid :: err where
  "ErrTokenSignatureInvalid = Sentinel ''jwt.ErrTokenSignatureInvalid'' ''token signature is invalid''"

definition ErrTokenInvalidClaims :: err where
  "ErrTokenInvalidClaims = Sentinel ''jwt.ErrTokenInvalidClaims'' ''token has invalid claims''"

definition ErrTokenExpired :: err where
  "ErrTokenExpired = Sentinel ''jwt.ErrTokenExpired'' ''token is expired''"

definition ErrTokenNotValidYet :: err where
  "ErrTokenNotValidYet = Sentinel ''jwt.ErrTokenNotValidYet'' ''token is not valid yet''"

definition ErrSignatureInvalid :: err where
  "ErrSignatureInvalid = Sentinel ''jwt.ErrSignatureInvalid'' ''signature is invalid''"

definition ErrInvalidKeyType :: err where
  "ErrInvalidKeyType = Sentinel ''jwt.ErrInvalidKeyType'' ''key is of invalid type''"

definition NoneSignatureTypeDisallowedError :: err where
  "NoneSignatureTypeDisallowedError = Sentinel ''jwt.NoneSignatureTypeDisallowedError'' ''none signature type is not allowed''"

text \<open>The library's \<open>newError(message, err, more...)\<close> wraps \<open>err\<close> and every further error.\<close>

definition newError :: "string \<Rightarrow> err \<Rightarrow> err list \<Rightarrow> err" where
  "newError message e others = Errorf message (e # others)"

text \<open>The signing methods the library registers under their \<open>alg\<close> names.\<close>

definition GetSigningMethod :: "string \<Rightarrow> SigningMethod option" where
  "GetSigningMethod a =
     (if a \<in> set [''HS256'', ''HS384'', ''HS512''] then Some (SigningMethodHMAC a)
      else if a \<in> set [''RS256'', ''RS384'', ''RS512''] then Some (SigningMethodRSA a)
      else if a \<in> set [''PS256'', ''PS384'', ''PS512''] then Some (SigningMethodRSAPSS a)
      else if a \<in> set [''ES256'', ''ES384'', ''ES512''] then Some (SigningMethodECDSA a)
      else if a = ''EdDSA'' then Some SigningMethodEd25519
      else if a = ''none'' then Some SigningMethodNone
      else None)"

definition SigningMethodHS256 :: SigningMethod where
  "SigningMethodHS256 = SigningMethodHMAC ''HS256''"

fun Alg :: "SigningMethod \<Rightarrow> string" where
  "Alg (SigningMethodHMAC a) = a"
| "Alg (SigningMethodRSA a) = a"
| "Alg (SigningMethodRSAPSS a) = a"
| "Alg (SigningMethodECDSA a) = a"
| "Alg SigningMethodEd25519 = ''EdDSA''"
| "Alg SigningMethodNone = ''none''"

text \<open>
  \<open>Sign\<close> and \<open>Verify\<close> of a method with a key of type \<open>[]byte\<close>, the only type
  of key the program passes: the HMAC methods compute or compare the code, the method
  \<open>none\<close> refuses any key but its own marker, and the asymmetric methods refuse the type.
\<close>

fun Sign :: "SigningMethod \<Rightarrow> Header \<Rightarrow> CustomClaims \<Rightarrow> string \<Rightarrow> err + signature" where
  "Sign (SigningMethodHMAC a) h c key = Inr (HMAC a key h c)"
| "Sign SigningMethodNone h c key = Inl NoneSignatureTypeDisallowedError"
| "Sign m h c key = Inl ErrInvalidKeyType"

fun Verify :: "SigningMethod \<Rightarrow> Header \<Rightarrow> CustomClaims \<Rightarrow> signature \<Rightarrow> string \<Rightarrow> err option" where
  "Verify (SigningMethodHMAC a) h c sig key =
     (if sig = HMAC a key h c then None else Some ErrSignatureInvalid)"
| "Verify SigningMethodNone h c sig key = Some NoneSignatureTypeDisallowedError"
| "Verify m h c sig key = Some ErrInvalidKeyType"

definition NewWithClaims :: "SigningMethod \<Rightarrow> CustomClaims \<Rightarrow> Token" where
  "NewWithClaims method claims =
     \<lparr>Method = method, Header = \<lparr>hdr_alg = Some (Alg method), hdr_typ = Some ''JWT''\<rparr>,
      Claims = claims, Signature = Bytes [], Valid = False\<rparr>"

definition SignedString :: "Token \<Rightarrow> string \<Rightarrow> err + token_string" where
  "SignedString token key =
     (case Sign (Method token) (Header token) (Claims token) key of
        Inl e \<Rightarrow> Inl e
      | Inr sig \<Rightarrow> Inr (Compact (Header token) (Claims token) sig))"

text \<open>
  \<open>Parser.ParseUnverified\<close>: the segments must decode, and the header must name a
  registered signing method.
\<close>

fun ParseUnverified :: "token_string \<Rightarrow> err + Token" where
  "ParseUnverified (Not_a_token s) = Inl (newError ''token is malformed'' ErrTokenMalformed [])"
| "ParseUnverified (Compact h c sig) =
     (case hdr_alg h of
        None \<Rightarrow> Inl (newError ''signing method (alg) is unspecified'' ErrTokenUnverifiable [])
      | Some a \<Rightarrow>
          (case GetSigningMethod a of
             None \<Rightarrow> Inl (newError ''signing method (alg) is unavailable'' ErrTokenUnverifiable [])
           | Some m \<Rightarrow>
               Inr \<lparr>Method = m, Header = h, Claims = c, Signature = sig, Valid = False\<rparr>))"

text \<open>
  The default \<open>Validator\<close>: with the clock reading \<open>now\<close>, an expiry that is not
  after \<open>now\<close> and a not-before that is after \<open>now\<close> are errors; a claim that is
  absent is not checked, and the issued-at claim is not checked at all.
\<close>

definition Validate :: "time \<Rightarrow> CustomClaims \<Rightarrow> err option" where
  "Validate now claims =
     (let errs =
        (case ExpiresAt claims of
           None \<Rightarrow> []
         | Some exp \<Rightarrow> if now < exp then [] else [ErrTokenExpired]) @
        (case NotBefore claims of
           None \<Rightarrow> []
         | Some nbf \<Rightarrow> if \<not> now < nbf then [] else [ErrTokenNotValidYet])
      in if errs = [] then None else Some (Errorf [] errs))"

text \<open>\<open>jwt.ParseWithClaims\<close> with the caller's key function.\<close>

definition ParseWithClaims :: "time \<Rightarrow> token_string \<Rightarrow> (Token \<Rightarrow> err + string) \<Rightarrow> err + Token" where
  "ParseWithClaims now tokenString keyFunc =
     (case ParseUnverified tokenString of
        Inl e \<Rightarrow> Inl e
      | Inr token \<Rightarrow>
          (case keyFunc token of
             Inl e \<Rightarrow> Inl (newError ''error while executing keyfunc'' ErrTokenUnverifiable [e])
           | Inr key \<Rightarrow>
               (case Verify (Method token) (Header token) (Claims token) (Signature token) key of
                  Some e \<Rightarrow> Inl (newError [] ErrTokenSignatureInvalid [e])
                | None \<Rightarrow>
                    (case Validate now (Claims token) of
                       Some e \<Rightarrow> Inl (newError [] ErrTokenInvalidClaims [e])
                     | None \<Rightarrow> Inr (token\<lparr>Valid := True\<rparr>)))))"

section \<open>The password hash library as the program uses it (\<open>golang.org/x/crypto/bcrypt\<close>)\<close>

text \<open>
  The library is a dependency of the repository. Its key schedule reads 72 bytes of key,
  starting again at the first byte whenever it reaches the end, and the key is the
  password followed by a zero byte: \<open>key_bytes\<close> is what it reads. The cipher itself is
  symbolic: \<open>EksBlowfish cost salt k\<close> stands for the 23 bytes computed with that cost
  and salt from the key bytes \<open>k\<close>, and different inputs have different outputs. A hash
  string is a value that carries what its fields decode to (version \<open>2a\<close>, cost, salt,
  output); any string the library does not read as a hash is \<open>Not_a_hash\<close>.
\<close>

definition key_bytes :: "string \<Rightarrow> string" where
  "key_bytes password =
     (let ckey = password @ [CHR 0x00] in map (\<lambda>n. ckey ! (n mod length ckey)) [0..<72])"

datatype eksblowfish = EksBlowfish nat string string

datatype hash_string = Not_a_hash string | Bcrypt nat string eksblowfish

definition MinCost :: nat where
  "MinCost = 4"

definition MaxCost :: nat where
  "MaxCost = 31"

definition DefaultCost :: nat where
  "DefaultCost = 10"

definition ErrPasswordTooLong :: err where
  "ErrPasswordTooLong = Sentinel ''bcrypt.ErrPasswordTooLong'' ''bcrypt: password length exceeds 72 bytes''"

definition ErrMismatchedHashAndPassword :: err where
  "ErrMismatchedHashAndPassword = Sentinel ''bcrypt.ErrMismatchedHashAndPassword'' ''crypto/bcrypt: hashedPassword is not the hash of the given password''"

definition ErrHashTooShort :: err where
  "ErrHashTooShort = Sentinel ''bcrypt.ErrHashTooShort'' ''crypto/bcrypt: hashedSecret too short to be a bcrypted password''"

definition InvalidCostError :: err where
  "InvalidCostError = New ''crypto/bcrypt: cost is outside allowed inclusive range 4..31''"

definition ErrEntropy :: err where
  "ErrEntropy = New ''reading the salt from the random source failed''"

text \<open>
  \<open>GenerateFromPassword\<close>: \<open>entropy\<close> is the 16 bytes of salt read from the random
  source, or \<open>None\<close> when the read fails. A password of more than 72 bytes is refused
  before anything else is done.
\<close>

definition GenerateFromPassword :: "string option \<Rightarrow> string \<Rightarrow> nat \<Rightarrow> err + hash_string" where
  "GenerateFromPassword entropy password cost0 =
     (if length password > 72 then Inl ErrPasswordTooLong
      else
        let cost = (if cost0 < MinCost then DefaultCost else cost0) in
        if cost < MinCost \<or> cost > MaxCost then Inl InvalidCostError
        else
          (case entropy of
             None \<Rightarrow> Inl ErrEntropy
           | Some salt \<Rightarrow> Inr (Bcrypt cost salt (EksBlowfish cost salt (key_bytes password)))))"

text \<open>
  \<open>CompareHashAndPassword\<close> reads cost and salt from the hash, computes the output for
  the password with them and compares. It does not look at the length of the password.
  For a string that is not a hash the library has several errors; the program only asks
  whether there is one.
\<close>

fun CompareHashAndPassword :: "hash_string \<Rightarrow> string \<Rightarrow> err option" where
  "CompareHashAndPassword (Not_a_hash s) password = Some ErrHashTooShort"
| "CompareHashAndPassword (Bcrypt cost salt h) password =
     (if cost < MinCost \<or> cost > MaxCost then Some InvalidCostError
      else if h = EksBlowfish cost salt (key_bytes password) then None
      else Some ErrMismatchedHashAndPassword)"

section \<open>\<open>internal/auth/jwt.go\<close>\<close>

text \<open>
  \<open>clock n\<close> is what the \<open>n\<close>-th call of \<open>time.Now()\<close> made by a function returns.
  The claims literal calls it three times, in the order of its fields: for
  \<open>ExpiresAt\<close>, for \<open>IssuedAt\<close> and for \<open>NotBefore\<close>. A function that returns
  \<open>("", err)\<close> returns \<open>(Not_a_token [], Some err)\<close> here.
\<close>

definition GenerateAccessToken :: "(nat \<Rightarrow> time) \<Rightarrow> uuid \<Rightarrow> string \<Rightarrow> int \<Rightarrow> token_string \<times> err option" where
  "GenerateAccessToken clock userID secret expiryDuration =
     (let claims =
        \<lparr>UserID = userID,
         Subject = uuid_String userID,
         ExpiresAt = Some (NewNumericDate (clock 0 + expiryDuration)),
         IssuedAt = Some (NewNumericDate (clock 1)),
         NotBefore = Some (NewNumericDate (clock 2))\<rparr>;
        token = NewWithClaims SigningMethodHS256 claims
      in case SignedString token secret of
           Inl e \<Rightarrow> (Not_a_token [], Some (Errorf ''failed to sign access token'' [e]))
         | Inr signedToken \<Rightarrow> (signedToken, None))"

definition GenerateRefreshToken :: "(nat \<Rightarrow> time) \<Rightarrow> uuid \<Rightarrow> string \<Rightarrow> int \<Rightarrow> token_string \<times> err option" where
  "GenerateRefreshToken clock userID secret expiryDuration =
     (let claims =
        \<lparr>UserID = userID,
         Subject = uuid_String userID,
         ExpiresAt = Some (NewNumericDate (clock 0 + expiryDuration)),
         IssuedAt = Some (NewNumericDate (clock 1)),
         NotBefore = Some (NewNumericDate (clock 2))\<rparr>;
        token = NewWithClaims SigningMethodHS256 claims
      in case SignedString token secret of
           Inl e \<Rightarrow> (Not_a_token [], Some (Errorf ''failed to sign refresh token'' [e]))
         | Inr signedToken \<Rightarrow> (signedToken, None))"

text \<open>
  The key function \<open>ValidateToken\<close> hands to the parser: the secret for a token whose
  method is an HMAC method, an error for any other method.
\<close>

fun keyFunc :: "string \<Rightarrow> Token \<Rightarrow> err + string" where
  "keyFunc secret token =
     (case Method token of
        SigningMethodHMAC a \<Rightarrow> Inr secret
      | _ \<Rightarrow>
          Inl (New (''unexpected signing method: '' @
                 (case hdr_alg (Header token) of None \<Rightarrow> ''<nil>'' | Some a \<Rightarrow> a))))"

text \<open>\<open>now\<close> is the clock reading the library's validator takes.\<close>

definition ValidateToken :: "time \<Rightarrow> token_string \<Rightarrow> string \<Rightarrow> err + CustomClaims" where
  "ValidateToken now tokenString secret =
     (case ParseWithClaims now tokenString (keyFunc secret) of
        Inl e \<Rightarrow>
          (if errors_Is e ErrTokenMalformed then Inl (Errorf ''malformed token'' [e])
           else if errors_Is e ErrTokenExpired then Inl (Errorf ''token expired'' [e])
           else if errors_Is e ErrTokenNotValidYet then Inl (Errorf ''token not valid yet'' [e])
           else if errors_Is e ErrTokenSignatureInvalid then Inl (Errorf ''invalid token signature'' [e])
           else Inl (Errorf ''could not parse token'' [e]))
      | Inr token \<Rightarrow>
          (if Valid token then Inr (Claims token) else Inl (New ''invalid token'')))"

text \<open>
  \<open>HashPassword\<close> and \<open>CheckPasswordHash\<close> (\<open>password.go\<close>, in the same source
  file); \<open>entropy\<close> is what the random source gives \<open>GenerateFromPassword\<close>.
\<close>

definition HashPassword :: "string option \<Rightarrow> string \<Rightarrow> hash_string \<times> err option" where
  "HashPassword entropy password =
     (case GenerateFromPassword entropy password DefaultCost of
        Inl e \<Rightarrow> (Not_a_hash [], Some (Errorf ''failed to hash password'' [e]))
      | Inr hashedBytes \<Rightarrow> (hashedBytes, None))"

definition CheckPasswordHash :: "string \<Rightarrow> hash_string \<Rightarrow> bool" where
  "CheckPasswordHash password hash = (CompareHashAndPassword hash password = None)"

section \<open>\<open>internal/auth/auth_service.go\<close>\<close>

definition ErrNotFound :: err where
  "ErrNotFound = Sentinel ''domain.ErrNotFound'' ''domain: entity not found''"

definition ErrInvalidCredentials :: err where
  "ErrInvalidCredentials = Sentinel ''auth.ErrInvalidCredentials'' ''invalid email or password''"

record User =
  ID :: uuid
  Name :: string
  Email :: string
  PasswordHash :: hash_string
  IsActive :: bool
  Role :: string
  CreatedAt :: time
  UpdatedAt :: time

record LoginRequest =
  req_Email :: string
  req_Password :: string

text \<open>
  \<open>userRepo\<close> is the \<open>FindByEmail\<close> method of the repository the service holds, the
  only one it calls: it returns a user or an error.
\<close>

record authService =
  userRepo :: "string \<Rightarrow> err + User"
  jwtSecret :: string
  accessTokenDuration :: int
  refreshTokenDuration :: int

text \<open>\<open>NewAuthService\<close> panics on an empty secret: \<open>None\<close>.\<close>

definition NewAuthService ::
  "(string \<Rightarrow> err + User) \<Rightarrow> string \<Rightarrow> int \<Rightarrow> int \<Rightarrow> authService option" where
  "NewAuthService repo secret accessDuration refreshDuration =
     (if length secret = 0 then None
      else Some \<lparr>userRepo = repo, jwtSecret = secret,
                  accessTokenDuration = accessDuration, refreshTokenDuration = refreshDuration\<rparr>)"

text \<open>
  \<open>Login\<close> returns two token strings and an error. Of the clock readings made during
  the call the first three go to the access token and the next three to the refresh token.
\<close>

definition Login ::
  "authService \<Rightarrow> (nat \<Rightarrow> time) \<Rightarrow> LoginRequest \<Rightarrow> token_string \<times> token_string \<times> err option" where
  "Login s clock req =
     (case userRepo s (req_Email req) of
        Inl e \<Rightarrow>
          (if errors_Is e ErrNotFound then (Not_a_token [], Not_a_token [], Some ErrInvalidCredentials)
           else (Not_a_token [], Not_a_token [], Some (Errorf ''error finding user by email'' [e])))
      | Inr user \<Rightarrow>
          (if \<not> CheckPasswordHash (req_Password req) (PasswordHash user) then
             (Not_a_token [], Not_a_token [], Some ErrInvalidCredentials)
           else
             (case GenerateAccessToken clock (ID user) (jwtSecret s) (accessTokenDuration s) of
                (accessToken, Some e) \<Rightarrow>
                  (Not_a_token [], Not_a_token [], Some (Errorf ''failed to generate access token'' [e]))
              | (accessToken, None) \<Rightarrow>
                  (case GenerateRefreshToken (\<lambda>n. clock (n + 3)) (ID user) (jwtSecret s)
                          (refreshTokenDuration s) of
                     (refreshToken, Some e) \<Rightarrow>
                       (Not_a_token [], Not_a_token [],
                        Some (Errorf ''failed to generate refresh token'' [e]))
                   | (refreshToken, None) \<Rightarrow> (accessToken, refreshToken, None)))))"

text \<open>
  The method \<open>ValidateToken\<close> of the service. Its result \<open>userID\<close> is a named result,
  which Go sets to the zero value \<open>uuid.Nil\<close> on entry; the body assigns the claim to
  the local \<open>userIDStr\<close> and then tests and returns \<open>userID\<close>.
\<close>

definition authService_ValidateToken :: "authService \<Rightarrow> time \<Rightarrow> token_string \<Rightarrow> uuid \<times> err option" where
  "authService_ValidateToken s now tokenString =
     (let userID = uuid_Nil in
      case ValidateToken now tokenString (jwtSecret s) of
        Inl e \<Rightarrow> (uuid_Nil, Some (Errorf ''token validation failed'' [e]))
      | Inr claims \<Rightarrow>
          let userIDStr = UserID claims;
              userIDStr = (if userIDStr = uuid_Nil then UserID claims else userIDStr)
          in if userID = uuid_Nil then
               (uuid_Nil, Some (New ''invalid token: missing user identifier in claims''))
             else (userID, None))"

section \<open>Values used in the examples\<close>

text \<open>A request context with the given \<open>Authorization\<close> header and nothing stored.\<close>

definition request_with :: "string \<Rightarrow> echo_Context" where
  "request_with h = \<lparr>Authorization = h, store = Map.empty\<rparr>"

text \<open>A clock that gives the same reading at every call.\<close>

definition frozen_clock :: "time \<Rightarrow> nat \<Rightarrow> time" where
  "frozen_clock now n = now"


text \<open>
  The invariant of the claims, in three parts: not-before is at most issued-at, the expiry
  is later than issued-at, the expiry is not earlier than issued-at. A claim that is
  absent satisfies none of them.
\<close>

definition not_before_le_issued_at :: "CustomClaims \<Rightarrow> bool" where
  "not_before_le_issued_at c =
     (case (NotBefore c, IssuedAt c) of (Some nbf, Some iat) \<Rightarrow> nbf \<le> iat | _ \<Rightarrow> False)"

definition expires_after_issued_at :: "CustomClaims \<Rightarrow> bool" where
  "expires_after_issued_at c =
     (case (ExpiresAt c, IssuedAt c) of (Some exp, Some iat) \<Rightarrow> iat < exp | _ \<Rightarrow> False)"


text \<open>The claims a token string carries, if it is a token.\<close>

definition claims_of :: "token_string \<Rightarrow> CustomClaims option" where
  "claims_of t = (case t of Not_a_token s \<Rightarrow> None | Compact h c sig \<Rightarrow> Some c)"

text \<open>
  A repository over a list of users, one that cannot reach its database, a user whose
  password is \<open>password123\<close>, and two services over them.
\<close>

definition repo_of :: "User list \<Rightarrow> string \<Rightarrow> err + User" where
  "repo_of users email =
     (case find (\<lambda>u. Email u = email) users of None \<Rightarrow> Inl ErrNotFound | Some u \<Rightarrow> Inr u)"

definition repo_down :: "string \<Rightarrow> err + User" where
  "repo_down email = Inl (New ''connection refused'')"

text \<open>
  A repository whose error is a value of its own making that only has the text of
  \<open>domain.ErrNotFound\<close>.
\<close>

definition repo_lookalike :: "string \<Rightarrow> err + User" where
  "repo_lookalike email = Inl (New ''domain: entity not found'')"

definition example_user :: User where
  "example_user =
     \<lparr>ID = 7, Name = ''Test User'', Email = ''test@example.com'',
      PasswordHash = fst (HashPassword (Some ''0123456789abcdef'') ''password123''),
      IsActive = True, Role = ''customer'', CreatedAt = 0, UpdatedAt = 0\<rparr>"

definition example_service :: authService where
  "example_service =
     \<lparr>userRepo = repo_of [example_user], jwtSecret = ''secret'',
      accessTokenDuration = Hour, refreshTokenDuration = 24 * Hour\<rparr>"

definition service_down :: authService where
  "service_down =
     \<lparr>userRepo = repo_down, jwtSecret = ''secret'',
      accessTokenDuration = Hour, refreshTokenDuration = 24 * Hour\<rparr>"

definition service_lookalike :: authService where
  "service_lookalike =
     \<lparr>userRepo = repo_lookalike, jwtSecret = ''secret'',
      accessTokenDuration = Hour, refreshTokenDuration = 24 * Hour\<rparr>"

section \<open>Properties of the request gate\<close>

subsection \<open>Splitting and lower-casing\<close>

lemma strings_Split_nosep: "sep \<notin> set s \<Longrightarrow> strings_Split s sep = [s]"
  by (induction s) auto

lemma strings_Split_append:
  "sep \<notin> set s \<Longrightarrow> strings_Split (s @ sep # t) sep = s # strings_Split t sep"
  by (induction s) auto

lemma strings_Split_ne: "strings_Split s sep \<noteq> []"
  by (induction s) (auto split: list.splits)

lemma strings_Split_length: "length (strings_Split s sep) = Suc (count_list s sep)"
  by (induction s) (auto split: list.splits simp: strings_Split_ne)

lemma strings_Split_two:
  "strings_Split h sep = [a, b] \<Longrightarrow> h = a @ sep # b \<and> sep \<notin> set a \<and> sep \<notin> set b"
proof (induction h arbitrary: a)
  case Nil
  then show ?case by auto
next
  case (Cons c cs)
  show ?case
  proof (cases "c = sep")
    case True
    with Cons.prems have a: "a = []" and b: "strings_Split cs sep = [b]" by auto
    have "count_list cs sep = 0"
      using strings_Split_length [of cs sep] b by simp
    then have nosep: "sep \<notin> set cs" by (simp add: count_list_0_iff)
    then have "b = cs" using b strings_Split_nosep [of sep cs] by simp
    then show ?thesis using a True nosep by simp
  next
    case False
    with Cons.prems obtain a' where a: "a = c # a'" and r: "strings_Split cs sep = [a', b]"
      by (auto split: list.splits)
    from Cons.IH [OF r] show ?thesis using a False by simp
  qed
qed

lemma toLower_byte_eq_iff:
  assumes "(97::nat) \<le> of_char d" "of_char d \<le> (122::nat)"
  shows "toLower_byte c = d \<longleftrightarrow> (c = d \<or> c = upper_byte d)"
proof (cases "(65::nat) \<le> of_char c \<and> of_char c \<le> (90::nat)")
  case True
  then have low: "toLower_byte c = char_of (of_char c + (32::nat))"
    by (simp add: toLower_byte_def Let_def)
  have "char_of (of_char c + (32::nat)) = d \<longleftrightarrow> (of_char c + 32) mod 256 = (of_char d :: nat)"
    by (metis of_char_of char_of_char)
  also have "\<dots> \<longleftrightarrow> (of_char c :: nat) = of_char d - 32"
    using True assms by auto
  also have "\<dots> \<longleftrightarrow> c = upper_byte d"
    unfolding upper_byte_def using assms
    by (metis (no_types, lifting) char_of_char of_char_of mod_less nat_of_char_less_256 less_imp_diff_less)
  finally have "toLower_byte c = d \<longleftrightarrow> c = upper_byte d"
    using low by simp
  moreover have "c \<noteq> d"
    using True assms by auto
  ultimately show ?thesis by simp
next
  case False
  then have same: "toLower_byte c = c"
    by (auto simp add: toLower_byte_def Let_def)
  have "(of_char (upper_byte d) :: nat) = of_char d - 32"
    unfolding upper_byte_def using assms by simp
  then have "c \<noteq> upper_byte d"
    using False assms by auto
  then show ?thesis using same by auto
qed

lemma strings_ToLower_eq_iff:
  "\<forall>d \<in> set w. (97::nat) \<le> of_char d \<and> of_char d \<le> (122::nat) \<Longrightarrow>
   strings_ToLower s = w \<longleftrightarrow> any_capitalization w s"
proof (induction s arbitrary: w)
  case Nil
  then show ?case by (auto simp: strings_ToLower_def any_capitalization_def)
next
  case (Cons c cs)
  show ?case
  proof (cases w)
    case Nil
    then show ?thesis by (simp add: strings_ToLower_def any_capitalization_def)
  next
    case (Cons d ds)
    then have "strings_ToLower cs = ds \<longleftrightarrow> any_capitalization ds cs"
      using Cons.IH [of ds] Cons.prems by simp
    moreover have "toLower_byte c = d \<longleftrightarrow> (c = d \<or> c = upper_byte d)"
      using toLower_byte_eq_iff [of d c] Cons.prems Cons by simp
    ultimately show ?thesis
      using Cons by (simp add: strings_ToLower_def any_capitalization_def)
  qed
qed

lemma ToLower_bearer_iff: "strings_ToLower s = ''bearer'' \<longleftrightarrow> any_capitalization ''bearer'' s"
  by (rule strings_ToLower_eq_iff) simp

lemma bearer_spelling_no_space:
  assumes "any_capitalization ''bearer'' s"
  shows "CHR '' '' \<notin> set s"
proof
  assume "CHR '' '' \<in> set s"
  then have "toLower_byte (CHR '' '') \<in> set (strings_ToLower s)"
    by (simp add: strings_ToLower_def)
  moreover have "strings_ToLower s = ''bearer''"
    using assms ToLower_bearer_iff by simp
  ultimately show False
    by (simp add: toLower_byte_def)
qed

lemma JWTAuth_shape_accepted:
  assumes "any_capitalization ''bearer'' scheme" "t \<noteq> []" "CHR '' '' \<notin> set t"
  shows "JWTAuth authSvc next (c\<lparr>Authorization := scheme @ '' '' @ t\<rparr>) =
     validate_then_next authSvc next (c\<lparr>Authorization := scheme @ '' '' @ t\<rparr>) t"
proof -
  have ns: "CHR '' '' \<notin> set scheme"
    using assms(1) by (rule bearer_spelling_no_space)
  have parts: "strings_Split (scheme @ CHR '' '' # t) (CHR '' '') = [scheme, t]"
    using strings_Split_append [OF ns, of t] strings_Split_nosep [OF assms(3)] by simp
  have low: "strings_ToLower scheme = ''bearer''"
    using assms(1) ToLower_bearer_iff by simp
  show ?thesis
    using assms(2)
    by (simp add: JWTAuth_def validate_then_next_def Let_def parts low
        split: prod.splits option.splits)
qed

lemma JWTAuth_shape_refused:
  assumes "JWTAuth authSvc next c \<noteq>
     Rejected (NewHTTPError StatusUnauthorized ''Missing or malformed authorization header'')"
  shows "\<exists>scheme t. Authorization c = scheme @ '' '' @ t \<and> any_capitalization ''bearer'' scheme
              \<and> t \<noteq> [] \<and> CHR '' '' \<notin> set t"
proof -
  define parts where "parts = strings_Split (Authorization c) (CHR '' '')"
  from assms have len: "length parts = 2" and low: "strings_ToLower (parts ! 0) = ''bearer''"
    and ne: "parts ! 1 \<noteq> []"
    by (auto simp: JWTAuth_def Let_def parts_def split: if_splits)
  from len obtain a b where ab: "parts = [a, b]"
    by (cases parts; cases "tl parts"; cases "tl (tl parts)") auto
  then have "Authorization c = a @ CHR '' '' # b \<and> CHR '' '' \<notin> set a \<and> CHR '' '' \<notin> set b"
    using strings_Split_two [of "Authorization c" "CHR '' ''" a b] parts_def by simp
  moreover have "any_capitalization ''bearer'' a"
    using low ab ToLower_bearer_iff by simp
  moreover have "b \<noteq> []" using ne ab by simp
  ultimately show ?thesis by auto
qed

subsection \<open>Claims about the gate\<close>

text \<open>
  C2, as stated, fails: the header \<open>bearer abc\<close> is not exactly the scheme token
  \<open>Bearer\<close> followed by a space and a token, yet the middleware hands \<open>abc\<close> to the
  service, and with a service that accepts it the downstream handler runs.
\<close>

theorem JWTAuth_lower_case_scheme_reaches_handler:
  "JWTAuth stub_authSvc stub_handler (request_with ''bearer abc'') = Next ''handler ran''"
  by (simp add: JWTAuth_def request_with_def stub_authSvc_def stub_handler_def
      strings_ToLower_def toLower_byte_def)

text \<open>
  C2, amended: a request whose \<open>Authorization\<close> header is absent, or is not some
  capitalization of the word \<open>bearer\<close> followed by one space and a non-empty token
  without a space, is refused with status 401 (missing or malformed header), whatever the
  service and the handler are; the result is the middleware's own error, so the downstream
  handler is not invoked.
\<close>

theorem JWTAuth_rejects_other_shapes:
  assumes "\<not> (\<exists>scheme t. Authorization c = scheme @ '' '' @ t \<and> any_capitalization ''bearer'' scheme
              \<and> t \<noteq> [] \<and> CHR '' '' \<notin> set t)"
  shows "JWTAuth authSvc next c =
     Rejected (NewHTTPError StatusUnauthorized ''Missing or malformed authorization header'')"
  using assms JWTAuth_shape_refused [of authSvc "next" c] by blast

theorem JWTAuth_rejects_other_shapes_witness:
  "JWTAuth stub_authSvc stub_handler (request_with []) =
     Rejected (NewHTTPError StatusUnauthorized ''Missing or malformed authorization header'') \<and>
   JWTAuth stub_authSvc stub_handler (request_with ''Token abc'') =
     Rejected (NewHTTPError StatusUnauthorized ''Missing or malformed authorization header'') \<and>
   JWTAuth stub_authSvc stub_handler (request_with ''Bearer'') =
     Rejected (NewHTTPError StatusUnauthorized ''Missing or malformed authorization header'') \<and>
   JWTAuth stub_authSvc stub_handler (request_with ''Bearer '') =
     Rejected (NewHTTPError StatusUnauthorized ''Missing or malformed authorization header'')"
proof -
  have shape: "\<not> (\<exists>scheme t. h = scheme @ '' '' @ t \<and> any_capitalization ''bearer'' scheme
              \<and> t \<noteq> [] \<and> CHR '' '' \<notin> set t)"
    if "h = [] \<or> h = ''Token abc'' \<or> h = ''Bearer'' \<or> h = ''Bearer ''" for h
    using that
    by (elim disjE)
      (auto simp: any_capitalization_def list_all2_Cons1 append_eq_Cons_conv Cons_eq_append_conv)
  have "JWTAuth stub_authSvc stub_handler (request_with h) =
     Rejected (NewHTTPError StatusUnauthorized ''Missing or malformed authorization header'')"
    if "h = [] \<or> h = ''Token abc'' \<or> h = ''Bearer'' \<or> h = ''Bearer ''" for h
    using shape [OF that] by (intro JWTAuth_rejects_other_shapes) (simp add: request_with_def)
  then show ?thesis by simp
qed

text \<open>
  C10: the scheme word is compared without regard to case. For every spelling of
  \<open>bearer\<close> in upper and lower case letters and every non-empty token \<open>t\<close>, such
  that the header has exactly one space, the middleware does with the header what it does
  with \<open>Bearer t\<close>: it does not refuse the shape but hands \<open>t\<close> to the service, and
  the service's answer decides.
\<close>

theorem JWTAuth_scheme_any_case:
  assumes "any_capitalization ''bearer'' scheme" and "t \<noteq> []"
    and "count_list (scheme @ '' '' @ t) (CHR '' '') = 1"
  shows "JWTAuth authSvc next (c\<lparr>Authorization := scheme @ '' '' @ t\<rparr>) =
           validate_then_next authSvc next (c\<lparr>Authorization := scheme @ '' '' @ t\<rparr>) t \<and>
         JWTAuth authSvc next (c\<lparr>Authorization := ''Bearer '' @ t\<rparr>) =
           validate_then_next authSvc next (c\<lparr>Authorization := ''Bearer '' @ t\<rparr>) t"
proof -
  have "count_list t (CHR '' '') = 0"
    using assms(3) by simp
  then have t: "CHR '' '' \<notin> set t"
    by (simp add: count_list_0_iff)
  have B: "any_capitalization ''bearer'' ''Bearer''"
    by code_simp
  show ?thesis
    using JWTAuth_shape_accepted [OF assms(1,2) t, of authSvc "next" c]
      JWTAuth_shape_accepted [OF B assms(2) t, of authSvc "next" c]
    by simp
qed

theorem JWTAuth_scheme_any_case_witness:
  "JWTAuth stub_authSvc stub_handler (request_with ''BEARER abc'') = Next ''handler ran'' \<and>
   JWTAuth stub_authSvc stub_handler (request_with ''Bearer abc'') = Next ''handler ran''"
proof -
  have "any_capitalization ''bearer'' ''BEARER''"
    by code_simp
  moreover have "count_list (''BEARER'' @ '' '' @ ''abc'') (CHR '' '') = 1"
    by simp
  ultimately show ?thesis
    using JWTAuth_scheme_any_case [of "''BEARER''" "''abc''" stub_authSvc stub_handler
        "request_with []"]
    by (simp add: validate_then_next_def stub_authSvc_def stub_handler_def request_with_def)
qed

section \<open>Properties of the token functions\<close>

subsection \<open>Truncation to whole seconds\<close>

lemma NewNumericDate_le: "NewNumericDate t \<le> t"
  by (simp add: NewNumericDate_def TimePrecision_def Second_def)

lemma NewNumericDate_less: "t < NewNumericDate t + Second"
proof -
  have "t mod 1000000000 < (1000000000::int)"
    by simp
  then show ?thesis
    by (simp add: NewNumericDate_def TimePrecision_def Second_def)
qed

lemma NewNumericDate_mono: "a \<le> b \<Longrightarrow> NewNumericDate a \<le> NewNumericDate b"
proof -
  assume ab: "a \<le> b"
  have "a div 1000000000 \<le> b div 1000000000"
    using ab by (rule zdiv_mono1) simp
  moreover have "\<And>t::int. t - t mod 1000000000 = (t div 1000000000) * 1000000000"
    by (simp add: algebra_simps minus_mod_eq_mult_div)
  ultimately show ?thesis
    by (simp add: NewNumericDate_def TimePrecision_def Second_def)
qed

lemma NewNumericDate_add_Second: "NewNumericDate (t + Second) = NewNumericDate t + Second"
  by (simp add: NewNumericDate_def TimePrecision_def Second_def)


subsection \<open>Issuing\<close>

lemma GenerateAccessToken_result:
  "GenerateAccessToken clock u secret ttl =
     (Compact \<lparr>hdr_alg = Some ''HS256'', hdr_typ = Some ''JWT''\<rparr>
        \<lparr>UserID = u, Subject = uuid_String u,
         ExpiresAt = Some (NewNumericDate (clock 0 + ttl)),
         IssuedAt = Some (NewNumericDate (clock 1)),
         NotBefore = Some (NewNumericDate (clock 2))\<rparr>
        (HMAC ''HS256'' secret \<lparr>hdr_alg = Some ''HS256'', hdr_typ = Some ''JWT''\<rparr>
           \<lparr>UserID = u, Subject = uuid_String u,
            ExpiresAt = Some (NewNumericDate (clock 0 + ttl)),
            IssuedAt = Some (NewNumericDate (clock 1)),
            NotBefore = Some (NewNumericDate (clock 2))\<rparr>), None)"
  by (simp add: GenerateAccessToken_def NewWithClaims_def SignedString_def
      SigningMethodHS256_def Let_def)

lemma GenerateRefreshToken_result:
  "GenerateRefreshToken clock u secret ttl =
     (Compact \<lparr>hdr_alg = Some ''HS256'', hdr_typ = Some ''JWT''\<rparr>
        \<lparr>UserID = u, Subject = uuid_String u,
         ExpiresAt = Some (NewNumericDate (clock 0 + ttl)),
         IssuedAt = Some (NewNumericDate (clock 1)),
         NotBefore = Some (NewNumericDate (clock 2))\<rparr>
        (HMAC ''HS256'' secret \<lparr>hdr_alg = Some ''HS256'', hdr_typ = Some ''JWT''\<rparr>
           \<lparr>UserID = u, Subject = uuid_String u,
            ExpiresAt = Some (NewNumericDate (clock 0 + ttl)),
            IssuedAt = Some (NewNumericDate (clock 1)),
            NotBefore = Some (NewNumericDate (clock 2))\<rparr>), None)"
  by (simp add: GenerateRefreshToken_def NewWithClaims_def SignedString_def
      SigningMethodHS256_def Let_def)

text \<open>
  Where the two order relations of the invariant hold, for any readings of the clock: the
  third reading must come before the full second that follows the second reading, and the
  first reading plus the time to live must reach that full second.
\<close>

lemma NewNumericDate_le_iff:
  "NewNumericDate a \<le> NewNumericDate b \<longleftrightarrow> a < NewNumericDate b + Second"
proof
  assume "NewNumericDate a \<le> NewNumericDate b"
  then show "a < NewNumericDate b + Second"
    using NewNumericDate_less [of a] by simp
next
  assume a: "a < NewNumericDate b + Second"
  have "a div 1000000000 \<le> b div 1000000000"
  proof (rule ccontr)
    assume "\<not> a div 1000000000 \<le> b div 1000000000"
    then have "b div 1000000000 + 1 \<le> a div 1000000000" by simp
    then have "(b div 1000000000 + 1) * 1000000000 \<le> (a div 1000000000) * 1000000000"
      by (rule mult_right_mono) simp
    also have "\<dots> \<le> a"
      by (simp add: algebra_simps)
    finally show False
      using a by (simp add: NewNumericDate_def TimePrecision_def Second_def algebra_simps
          minus_mod_eq_mult_div)
  qed
  then have "(a div 1000000000) * 1000000000 \<le> (b div 1000000000) * 1000000000"
    by (rule mult_right_mono) simp
  then show "NewNumericDate a \<le> NewNumericDate b"
    by (simp add: NewNumericDate_def TimePrecision_def Second_def algebra_simps
          minus_mod_eq_mult_div)
qed

lemma NewNumericDate_less_iff:
  "NewNumericDate a < NewNumericDate b \<longleftrightarrow> NewNumericDate a + Second \<le> b"
  using NewNumericDate_le_iff [of b a] by auto

lemma Generate_invariants_any_clock:
  "\<exists>c. claims_of (fst (GenerateAccessToken clock u secret ttl)) = Some c \<and>
        claims_of (fst (GenerateRefreshToken clock u secret ttl)) = Some c \<and>
        (not_before_le_issued_at c \<longleftrightarrow> clock 2 < NewNumericDate (clock 1) + Second) \<and>
        (expires_after_issued_at c \<longleftrightarrow> NewNumericDate (clock 1) + Second \<le> clock 0 + ttl)"
  by (simp add: GenerateAccessToken_result GenerateRefreshToken_result claims_of_def
      not_before_le_issued_at_def expires_after_issued_at_def
      NewNumericDate_le_iff NewNumericDate_less_iff)




subsection \<open>Validating\<close>

lemma ValidateToken_fresh:
  assumes "Second \<le> ttl"
  shows "ValidateToken now (fst (GenerateAccessToken (frozen_clock now) u secret ttl)) secret =
     Inr \<lparr>UserID = u, Subject = uuid_String u,
         ExpiresAt = Some (NewNumericDate (now + ttl)),
         IssuedAt = Some (NewNumericDate now),
         NotBefore = Some (NewNumericDate now)\<rparr>"
proof -
  have "now < NewNumericDate (now + ttl)"
  proof -
    have "NewNumericDate (now + Second) \<le> NewNumericDate (now + ttl)"
      using assms by (intro NewNumericDate_mono) simp
    then show ?thesis
      using NewNumericDate_less [of now] by (simp add: NewNumericDate_add_Second)
  qed
  moreover have "\<not> now < NewNumericDate now"
    using NewNumericDate_le [of now] by simp
  ultimately show ?thesis
    by (simp add: GenerateAccessToken_result frozen_clock_def ValidateToken_def
        ParseWithClaims_def GetSigningMethod_def Validate_def)
qed

lemma authService_ValidateToken_never_succeeds:
  "snd (authService_ValidateToken s now tokenString) \<noteq> None \<and>
   fst (authService_ValidateToken s now tokenString) = uuid_Nil"
  by (simp add: authService_ValidateToken_def Let_def split: sum.splits)

text \<open>
  C1 does not hold of the code. A token issued for user \<open>u\<close> with a time to live of a
  second or more, presented at once under the same secret, passes the function
  \<open>ValidateToken\<close> of \<open>jwt.go\<close>, which returns claims that carry \<open>u\<close>; the
  method of the service then returns \<open>uuid.Nil\<close> and the error "missing user identifier
  in claims", because it tests its named result and not the claim it has just read.
\<close>

theorem authService_ValidateToken_rejects_fresh_token:
  assumes "Second \<le> ttl" and "jwtSecret s = secret"
  shows "map_sum id UserID
           (ValidateToken now (fst (GenerateAccessToken (frozen_clock now) u secret ttl)) secret) =
           Inr u \<and>
         authService_ValidateToken s now (fst (GenerateAccessToken (frozen_clock now) u secret ttl)) =
           (uuid_Nil, Some (New ''invalid token: missing user identifier in claims''))"
  using assms
  by (simp add: authService_ValidateToken_def ValidateToken_fresh Let_def)

theorem authService_ValidateToken_rejects_fresh_token_witness:
  "map_sum id UserID
     (ValidateToken 1700000000500000000
        (fst (GenerateAccessToken (frozen_clock 1700000000500000000) 7 ''secret'' Hour)) ''secret'') =
     Inr 7 \<and>
   authService_ValidateToken example_service 1700000000500000000
     (fst (GenerateAccessToken (frozen_clock 1700000000500000000) 7 ''secret'' Hour)) =
     (uuid_Nil, Some (New ''invalid token: missing user identifier in claims''))"
  by (rule authService_ValidateToken_rejects_fresh_token)
    (simp_all add: Hour_def Second_def example_service_def)

text \<open>
  C3, as stated, fails: for a token whose header declares the algorithm \<open>none\<close> the key
  function returns an error, the library reports the token as unverifiable, and
  \<open>ValidateToken\<close> answers with its general error "could not parse token", which is
  not of the kind of an invalid signature.
\<close>

theorem ValidateToken_alg_none_could_not_parse:
  "ValidateToken 0
     (Compact \<lparr>hdr_alg = Some ''none'', hdr_typ = Some ''JWT''\<rparr>
        \<lparr>UserID = 7, Subject = uuid_String 7, ExpiresAt = None, IssuedAt = None,
         NotBefore = None\<rparr>
        (Bytes [])) ''secret'' =
   Inl (Errorf ''could not parse token''
          [Errorf ''error while executing keyfunc''
             [ErrTokenUnverifiable, New ''unexpected signing method: none'']]) \<and>
   \<not> errors_Is
       (Errorf ''could not parse token''
          [Errorf ''error while executing keyfunc''
             [ErrTokenUnverifiable, New ''unexpected signing method: none'']])
       ErrTokenSignatureInvalid"
  by (simp add: ValidateToken_def ParseWithClaims_def GetSigningMethod_def newError_def
      ErrTokenUnverifiable_def ErrTokenMalformed_def ErrTokenExpired_def ErrTokenNotValidYet_def
      ErrTokenSignatureInvalid_def)

text \<open>
  C3, amended: for every token whose header does not declare one of the HMAC algorithms
  (\<open>none\<close> and a missing algorithm included), every secret and every time,
  \<open>ValidateToken\<close> returns no claims but the error "could not parse token", which wraps
  the library's error for an unverifiable token and no error for an invalid signature.
\<close>

theorem ValidateToken_non_HMAC_unverifiable:
  assumes "hdr_alg h \<notin> {Some ''HS256'', Some ''HS384'', Some ''HS512''}"
  shows "\<exists>e. ValidateToken now (Compact h c sig) secret =
                Inl (Errorf ''could not parse token'' [e]) \<and>
              errors_Is e ErrTokenUnverifiable \<and> \<not> errors_Is e ErrTokenSignatureInvalid"
proof (cases "hdr_alg h")
  case None
  then show ?thesis
    by (simp add: ValidateToken_def ParseWithClaims_def newError_def
      ErrTokenUnverifiable_def ErrTokenMalformed_def ErrTokenExpired_def ErrTokenNotValidYet_def
      ErrTokenSignatureInvalid_def)
next
  case (Some a)
  note alg = this
  show ?thesis
  proof (cases "GetSigningMethod a")
    case None
    then show ?thesis using alg
      by (simp add: ValidateToken_def ParseWithClaims_def newError_def
        ErrTokenUnverifiable_def ErrTokenMalformed_def ErrTokenExpired_def
        ErrTokenNotValidYet_def ErrTokenSignatureInvalid_def)
  next
    case (Some m)
    then have "\<forall>x. m \<noteq> SigningMethodHMAC x"
      using assms alg by (auto simp: GetSigningMethod_def split: if_splits)
    then show ?thesis using Some alg
      by (cases m) (simp_all add: ValidateToken_def ParseWithClaims_def newError_def
        ErrTokenUnverifiable_def ErrTokenMalformed_def ErrTokenExpired_def
        ErrTokenNotValidYet_def ErrTokenSignatureInvalid_def)
  qed
qed

theorem ValidateToken_non_HMAC_unverifiable_witness:
  "\<exists>e. ValidateToken 0
          (Compact \<lparr>hdr_alg = Some ''RS256'', hdr_typ = Some ''JWT''\<rparr>
             \<lparr>UserID = 7, Subject = uuid_String 7, ExpiresAt = None, IssuedAt = None,
              NotBefore = None\<rparr>
             (Bytes ''forged'')) ''secret'' =
          Inl (Errorf ''could not parse token'' [e]) \<and>
        errors_Is e ErrTokenUnverifiable \<and> \<not> errors_Is e ErrTokenSignatureInvalid"
  by (rule ValidateToken_non_HMAC_unverifiable) simp

section \<open>Properties of the password functions\<close>

lemma key_bytes_length: "length (key_bytes p) = 72"
  by (simp add: key_bytes_def Let_def)

lemma key_bytes_nth:
  "n < 72 \<Longrightarrow> key_bytes p ! n = (p @ [CHR 0x00]) ! (n mod Suc (length p))"
  by (simp add: key_bytes_def Let_def)

lemma key_bytes_take:
  assumes "length p \<le> 72"
  shows "take (length p) (key_bytes p) = p"
proof (rule nth_equalityI)
  show "length (take (length p) (key_bytes p)) = length p"
    using assms by (simp add: key_bytes_length)
next
  fix i assume "i < length (take (length p) (key_bytes p))"
  then have i: "i < length p" by simp
  then have "i < 72" using assms by simp
  then show "take (length p) (key_bytes p) ! i = p ! i"
    using i by (simp add: key_bytes_nth nth_append)
qed

lemma key_bytes_stop:
  assumes "length p < 72"
  shows "key_bytes p ! length p = CHR 0x00"
  using assms by (simp add: key_bytes_nth nth_append)

lemma key_bytes_takeWhile:
  assumes "length p \<le> 72" "CHR 0x00 \<notin> set p"
  shows "takeWhile (\<lambda>c. c \<noteq> CHR 0x00) (key_bytes p) = p"
proof -
  have split: "key_bytes p = p @ drop (length p) (key_bytes p)"
    using key_bytes_take [OF assms(1)] append_take_drop_id [of "length p" "key_bytes p"] by simp
  have all: "\<forall>c \<in> set p. c \<noteq> CHR 0x00"
    using assms(2) by auto
  show ?thesis
  proof (cases "length p < 72")
    case True
    then have "drop (length p) (key_bytes p) = CHR 0x00 # drop (Suc (length p)) (key_bytes p)"
      using key_bytes_stop [OF True] by (simp add: Cons_nth_drop_Suc [symmetric] key_bytes_length)
    then have "key_bytes p = p @ CHR 0x00 # drop (Suc (length p)) (key_bytes p)"
      using split by simp
    then have "takeWhile (\<lambda>c. c \<noteq> CHR 0x00) (key_bytes p) =
       takeWhile (\<lambda>c. c \<noteq> CHR 0x00)
         (p @ CHR 0x00 # drop (Suc (length p)) (key_bytes p))"
      by simp
    also have "\<dots> = p"
      using all by simp
    finally show ?thesis .
  next
    case False
    then have "length p = 72" using assms(1) by simp
    then have "key_bytes p = p"
      using split by (simp add: key_bytes_length)
    then show ?thesis using all by simp
  qed
qed

lemma key_bytes_inj:
  assumes "key_bytes p = key_bytes q" "length p \<le> 72" "length q \<le> 72"
    "CHR 0x00 \<notin> set p" "CHR 0x00 \<notin> set q"
  shows "p = q"
proof -
  have "p = takeWhile (\<lambda>c. c \<noteq> CHR 0x00) (key_bytes p)"
    by (rule key_bytes_takeWhile [OF assms(2,4), symmetric])
  also have "\<dots> = takeWhile (\<lambda>c. c \<noteq> CHR 0x00) (key_bytes q)"
    by (simp only: assms(1))
  also have "\<dots> = q"
    by (rule key_bytes_takeWhile [OF assms(3,5)])
  finally show ?thesis .
qed

text \<open>
  C7, as stated, fails: with the random source working, \<open>HashPassword\<close> fails on a
  password of 73 bytes, because of its length.
\<close>

theorem HashPassword_fails_on_long_password:
  "HashPassword (Some ''0123456789abcdef'') (replicate 73 (CHR ''a'')) =
     (Not_a_hash [], Some (Errorf ''failed to hash password'' [ErrPasswordTooLong]))"
  by (simp add: HashPassword_def GenerateFromPassword_def)

text \<open>
  C7, amended: \<open>HashPassword\<close> returns without error exactly when the password has at
  most 72 bytes and the random source delivers the salt; it then returns a hash with the
  default cost and that salt. Every password of more than 72 bytes fails with the
  library's error for a password that is too long, whatever the random source does; a
  password of at most 72 bytes fails only with the error of the random source. Apart
  from the length, nothing in the password makes it fail.
\<close>

theorem HashPassword_fails_iff:
  "(snd (HashPassword entropy p) = None) = (length p \<le> 72 \<and> entropy \<noteq> None) \<and>
   (\<forall>salt. length p \<le> 72 \<and> entropy = Some salt \<longrightarrow>
      HashPassword entropy p =
        (Bcrypt DefaultCost salt (EksBlowfish DefaultCost salt (key_bytes p)), None)) \<and>
   (72 < length p \<longrightarrow>
      HashPassword entropy p =
        (Not_a_hash [], Some (Errorf ''failed to hash password'' [ErrPasswordTooLong]))) \<and>
   (length p \<le> 72 \<and> entropy = None \<longrightarrow>
      HashPassword entropy p =
        (Not_a_hash [], Some (Errorf ''failed to hash password'' [ErrEntropy])))"
  by (auto simp: HashPassword_def GenerateFromPassword_def DefaultCost_def MinCost_def MaxCost_def
      split: option.splits)

theorem HashPassword_fails_iff_witness:
  "snd (HashPassword (Some ''0123456789abcdef'') ''password123'') = None \<and>
   HashPassword (Some ''0123456789abcdef'') ''password123'' =
     (Bcrypt DefaultCost ''0123456789abcdef''
        (EksBlowfish DefaultCost ''0123456789abcdef'' (key_bytes ''password123'')), None) \<and>
   HashPassword None ''password123'' =
     (Not_a_hash [], Some (Errorf ''failed to hash password'' [ErrEntropy])) \<and>
   HashPassword (Some ''0123456789abcdef'') (replicate 100 (CHR ''a'')) =
     (Not_a_hash [], Some (Errorf ''failed to hash password'' [ErrPasswordTooLong])) \<and>
   HashPassword None (replicate 100 (CHR ''a'')) =
     (Not_a_hash [], Some (Errorf ''failed to hash password'' [ErrPasswordTooLong]))"
  using HashPassword_fails_iff [of "Some ''0123456789abcdef''" "''password123''"]
    HashPassword_fails_iff [of None "''password123''"]
    HashPassword_fails_iff [of "Some ''0123456789abcdef''" "replicate 100 (CHR ''a'')"]
    HashPassword_fails_iff [of None "replicate 100 (CHR ''a'')"]
  by simp

text \<open>
  C5, as stated, fails: a password of 73 bytes is not hashed at all, and the empty string
  returned in place of the digest does not verify.
\<close>

theorem HashPassword_long_password_does_not_verify:
  "\<not> CheckPasswordHash (replicate 73 (CHR ''a''))
       (fst (HashPassword (Some ''0123456789abcdef'') (replicate 73 (CHR ''a''))))"
  by (simp add: HashPassword_def GenerateFromPassword_def CheckPasswordHash_def)

text \<open>
  C5, amended: for every password of at most 72 bytes, the digest \<open>HashPassword\<close>
  returns verifies against the password, whatever salt the random source gave; two calls
  that draw different salts return different digests, and both verify.
\<close>

theorem HashPassword_then_CheckPasswordHash:
  assumes "length p \<le> 72"
  shows "CheckPasswordHash p (fst (HashPassword (Some salt1) p)) \<and>
         CheckPasswordHash p (fst (HashPassword (Some salt2) p)) \<and>
         (salt1 \<noteq> salt2 \<longrightarrow>
            fst (HashPassword (Some salt1) p) \<noteq> fst (HashPassword (Some salt2) p))"
  using assms
  by (simp add: HashPassword_def GenerateFromPassword_def CheckPasswordHash_def
      DefaultCost_def MinCost_def MaxCost_def)

theorem HashPassword_then_CheckPasswordHash_witness:
  "CheckPasswordHash ''password123'' (fst (HashPassword (Some ''0123456789abcdef'') ''password123'')) \<and>
   CheckPasswordHash ''password123'' (fst (HashPassword (Some ''fedcba9876543210'') ''password123'')) \<and>
   fst (HashPassword (Some ''0123456789abcdef'') ''password123'') \<noteq>
     fst (HashPassword (Some ''fedcba9876543210'') ''password123'')"
  using HashPassword_then_CheckPasswordHash
    [of "''password123''" "''0123456789abcdef''" "''fedcba9876543210''"]
  by simp

text \<open>
  C6, as stated, fails. The digest of a password of 72 bytes verifies against the
  different password that has one more byte, since only 72 bytes of key are read; and the
  digest of \<open>password\<close> verifies against \<open>password\<close>, a zero byte and
  \<open>password\<close> again, since the key is read round and round with a zero byte at its end.
\<close>

theorem CheckPasswordHash_accepts_longer_password:
  "CheckPasswordHash (replicate 73 (CHR ''a''))
     (fst (HashPassword (Some ''0123456789abcdef'') (replicate 72 (CHR ''a'')))) \<and>
   CheckPasswordHash (''password'' @ [CHR 0x00] @ ''password'')
     (fst (HashPassword (Some ''0123456789abcdef'') ''password''))"
  by code_simp

text \<open>
  C6, amended: for passwords \<open>p\<close> and \<open>p2\<close> that differ and contain no zero byte,
  \<open>p\<close> of at most 72 bytes, \<open>CheckPasswordHash\<close> of \<open>p\<close> against what
  \<open>HashPassword\<close> returns for \<open>p2\<close> is false (the cipher taken as free of
  collisions).
\<close>

theorem CheckPasswordHash_rejects_other_password:
  assumes "p \<noteq> p2" and "length p \<le> 72"
    and "CHR 0x00 \<notin> set p" and "CHR 0x00 \<notin> set p2"
  shows "\<not> CheckPasswordHash p (fst (HashPassword entropy p2))"
proof (cases "length p2 \<le> 72 \<and> entropy \<noteq> None")
  case True
  then obtain salt where e: "entropy = Some salt" by auto
  have "key_bytes p2 \<noteq> key_bytes p"
    using key_bytes_inj [of p2 p] assms True by auto
  then show ?thesis
    using True e
    by (simp add: HashPassword_def GenerateFromPassword_def CheckPasswordHash_def
      DefaultCost_def MinCost_def MaxCost_def)
next
  case False
  then show ?thesis
    by (auto simp: HashPassword_def GenerateFromPassword_def CheckPasswordHash_def
      DefaultCost_def MinCost_def MaxCost_def split: option.splits)
qed

theorem CheckPasswordHash_rejects_other_password_witness:
  "\<not> CheckPasswordHash ''password124''
       (fst (HashPassword (Some ''0123456789abcdef'') ''password123''))"
  by (rule CheckPasswordHash_rejects_other_password) simp_all

section \<open>Properties of \<open>Login\<close>\<close>

text \<open>
  C4: \<open>Login\<close> returns \<open>ErrInvalidCredentials\<close> exactly when the repository's error is
  the value \<open>domain.ErrNotFound\<close> (or wraps it), or the repository returns a user and the
  password fails the check against the stored hash. Any other error of the repository, one
  with the text of \<open>domain.ErrNotFound\<close> included, comes back wrapped as "error finding
  user by email": a value that is not \<open>ErrInvalidCredentials\<close>, and in which
  \<open>errors.Is\<close> finds \<open>ErrInvalidCredentials\<close> only if the repository's own error
  holds it.
\<close>

theorem Login_invalid_credentials_iff:
  "(snd (snd (Login s clock req)) = Some ErrInvalidCredentials) =
     (case userRepo s (req_Email req) of
        Inl e \<Rightarrow> errors_Is e ErrNotFound
      | Inr user \<Rightarrow> \<not> CheckPasswordHash (req_Password req) (PasswordHash user)) \<and>
   (\<forall>e. userRepo s (req_Email req) = Inl e \<and> \<not> errors_Is e ErrNotFound \<longrightarrow>
        Login s clock req =
          (Not_a_token [], Not_a_token [], Some (Errorf ''error finding user by email'' [e])) \<and>
        Errorf ''error finding user by email'' [e] \<noteq> ErrInvalidCredentials \<and>
        errors_Is (Errorf ''error finding user by email'' [e]) ErrInvalidCredentials =
          errors_Is e ErrInvalidCredentials)"
  by (auto simp: Login_def ErrInvalidCredentials_def
      split: sum.splits if_splits prod.splits option.splits)

theorem Login_invalid_credentials_iff_witness:
  "snd (snd (Login example_service (frozen_clock 1700000000500000000)
       \<lparr>req_Email = ''nobody@example.com'', req_Password = ''password123''\<rparr>)) =
     Some ErrInvalidCredentials \<and>
   snd (snd (Login example_service (frozen_clock 1700000000500000000)
       \<lparr>req_Email = ''test@example.com'', req_Password = ''password124''\<rparr>)) =
     Some ErrInvalidCredentials \<and>
   snd (snd (Login example_service (frozen_clock 1700000000500000000)
       \<lparr>req_Email = ''test@example.com'', req_Password = ''password123''\<rparr>)) \<noteq>
     Some ErrInvalidCredentials \<and>
   Login service_down (frozen_clock 1700000000500000000)
       \<lparr>req_Email = ''test@example.com'', req_Password = ''password123''\<rparr> =
     (Not_a_token [], Not_a_token [],
      Some (Errorf ''error finding user by email'' [New ''connection refused''])) \<and>
   Login service_lookalike (frozen_clock 1700000000500000000)
       \<lparr>req_Email = ''test@example.com'', req_Password = ''password123''\<rparr> =
     (Not_a_token [], Not_a_token [],
      Some (Errorf ''error finding user by email'' [New ''domain: entity not found''])) \<and>
   \<not> errors_Is (Errorf ''error finding user by email'' [New ''domain: entity not found''])
       ErrInvalidCredentials"
proof -
  have pw: "CheckPasswordHash ''password123'' (PasswordHash example_user)"
    "\<not> CheckPasswordHash ''password124'' (PasswordHash example_user)"
    by (simp_all add: example_user_def HashPassword_def GenerateFromPassword_def
        CheckPasswordHash_def DefaultCost_def MinCost_def MaxCost_def) code_simp
  show ?thesis
    using pw
      Login_invalid_credentials_iff [of example_service "frozen_clock 1700000000500000000"
        "\<lparr>req_Email = ''nobody@example.com'', req_Password = ''password123''\<rparr>"]
      Login_invalid_credentials_iff [of example_service "frozen_clock 1700000000500000000"
        "\<lparr>req_Email = ''test@example.com'', req_Password = ''password124''\<rparr>"]
      Login_invalid_credentials_iff [of example_service "frozen_clock 1700000000500000000"
        "\<lparr>req_Email = ''test@example.com'', req_Password = ''password123''\<rparr>"]
      Login_invalid_credentials_iff [of service_down "frozen_clock 1700000000500000000"
        "\<lparr>req_Email = ''test@example.com'', req_Password = ''password123''\<rparr>"]
      Login_invalid_credentials_iff [of service_lookalike "frozen_clock 1700000000500000000"
        "\<lparr>req_Email = ''test@example.com'', req_Password = ''password123''\<rparr>"]
    by (simp add: example_service_def service_down_def service_lookalike_def repo_of_def
        repo_down_def repo_lookalike_def ErrNotFound_def ErrInvalidCredentials_def
        example_user_def)
qed

text \<open>
  C9: whenever \<open>Login\<close> returns an error, both token strings it returns are the empty
  string.
\<close>

theorem Login_error_returns_empty_tokens:
  "snd (snd (Login s clock req)) \<noteq> None \<Longrightarrow>
   fst (Login s clock req) = Not_a_token [] \<and> fst (snd (Login s clock req)) = Not_a_token []"
  by (auto simp: Login_def split: sum.splits if_splits prod.splits option.splits)

theorem Login_error_returns_empty_tokens_witness:
  "snd (snd (Login service_down (frozen_clock 1700000000500000000)
       \<lparr>req_Email = ''test@example.com'', req_Password = ''password123''\<rparr>)) \<noteq> None \<and>
   fst (Login service_down (frozen_clock 1700000000500000000)
       \<lparr>req_Email = ''test@example.com'', req_Password = ''password123''\<rparr>) = Not_a_token [] \<and>
   fst (snd (Login service_down (frozen_clock 1700000000500000000)
       \<lparr>req_Email = ''test@example.com'', req_Password = ''password123''\<rparr>)) = Not_a_token []"
proof -
  have e: "snd (snd (Login service_down (frozen_clock 1700000000500000000)
       \<lparr>req_Email = ''test@example.com'', req_Password = ''password123''\<rparr>)) \<noteq> None"
    by (simp add: Login_def service_down_def repo_down_def ErrNotFound_def)
  show ?thesis
    using e Login_error_returns_empty_tokens [OF e] by simp
qed

end
